theory Spec2Isabelle
  imports Main
begin

section \<open>The catalog plugin for Google Cloud Storage\<close>

text \<open>
  A shallow embedding of the three operations of the plugin: \<open>prepare\<close>
  (lib/prepare.ts), \<open>listResources\<close> and \<open>getResource\<close> (lib/imports.ts).
  The operations are asynchronous JavaScript functions that mutate the objects they
  are given and talk to a storage backend and a logger. In the model
  \<^item> a string is a list of characters, and an optional object field is an \<open>option\<close>;
  \<^item> the backend, the logger and the library functions that are not part of the
    plugin are the fields of a record \<open>world\<close>, functions of their arguments;
  \<^item> every operation returns a record \<open>run\<close>: how the promise it returned settled,
    the caller's objects after the call, and the calls made to the outside, in order.
\<close>

subsection \<open>JavaScript values\<close>

text \<open>\<open>new Error(message)\<close>: an error is its message.\<close>

datatype error = Error (message: string)

text \<open>
  The promise of an asynchronous function is resolved with a value, rejected with an
  error, or never settles.
\<close>

datatype 'a promise = Resolved 'a | Rejected error | Pending

text \<open>
  The truth value JavaScript gives an optional string in a condition: \<open>undefined\<close>
  and the empty string are falsy, every other string is truthy.
\<close>

definition truthy :: "string option \<Rightarrow> bool" where
  "truthy v = (case v of None \<Rightarrow> False | Some s \<Rightarrow> s \<noteq> [])"

subsection \<open>Configuration, secrets and contexts\<close>

record GCloudStorageConfig =
  bucketName :: "string option"
  serviceAccount :: "string option"

text \<open>The secret store is an object with string values, read and written by key.\<close>

type_synonym secret_store = "string \<rightharpoonup> string"

record "context" =
  catalogConfig :: GCloudStorageConfig
  secrets :: secret_store

record 'cap prepareContext = "context" +
  capabilities :: 'cap

text \<open>The value that stands for a stored service account in the configuration.\<close>

definition sentinel :: string where
  "sentinel = ''*************************''"

definition MissingConfiguration :: error where
  "MissingConfiguration =
     Error ''Service account and bucketName is required for Google Cloud Storage''"

definition InvalidCredentials :: error where
  "InvalidCredentials =
     Error ''Invalid bucketName or service account credentials for Google Cloud Storage''"

definition Unauthenticated :: error where
  "Unauthenticated = Error ''Service Account is required to access Google Cloud Storage''"

subsection \<open>The outside world\<close>

record GetFilesOptions =
  autoPaginate :: "bool option"
  prefix :: "string option"
  matchGlob :: "string option"
  delimiter :: "string option"
  includeTrailingDelimiter :: "bool option"
  maxResults :: "nat option"

datatype size_value = SizeNumber nat | SizeString string

record file_metadata =
  size' :: "size_value option"
  contentType :: "string option"

record storage_file =
  name :: string
  metadata :: file_metadata

text \<open>The third component of what \<open>getFiles\<close> resolves to, when there is one.\<close>

record apiResponse =
  prefixes :: "string list option"

datatype stream_end = StreamError error | StreamEnd

text \<open>
  What the plugin calls outside itself. A storage client is identified by the
  credentials it was built from; a bucket by the (optional) name of the configuration.
\<close>

datatype call =
    NewStorage
  | GetFiles "string option" GetFilesOptions
  | GetMetadata "string option" string
  | CreateReadStream "string option" string
  | CreateWriteStream string
  | LogStep string
  | LogTask string string "nat option"
  | LogProgress string nat
  | LogError string
  | ConsoleError string

record 'cred world =
  JSON_parse :: "string \<Rightarrow> error + 'cred"
  Storage :: "'cred \<Rightarrow> error option"
  getFiles :: "'cred \<Rightarrow> string option \<Rightarrow> GetFilesOptions
    \<Rightarrow> error + storage_file list \<times> apiResponse option"
  getMetadata :: "'cred \<Rightarrow> string option \<Rightarrow> string \<Rightarrow> error + file_metadata"
  createReadStream :: "'cred \<Rightarrow> string option \<Rightarrow> string \<Rightarrow> error + nat list \<times> stream_end"
  log_step :: "string \<Rightarrow> error option"
  log_task :: "string \<Rightarrow> string \<Rightarrow> nat option \<Rightarrow> error option"
  log_progress :: "string \<Rightarrow> nat \<Rightarrow> error option"
  log_error :: "string \<Rightarrow> error option"
  path_join :: "string \<Rightarrow> string \<Rightarrow> string"
  Number :: "string \<Rightarrow> nat option"

record ('a, 's) run =
  promise :: "'a promise"
  after :: 's
  calls :: "call list"

subsection \<open>prepare\<close>

text \<open>
  The body of the \<open>try\<close> block of \<open>prepare\<close>: parse the secret, build a client and ask
  the bucket for one file. It gives the error thrown, if any, and the calls made.
\<close>

definition probe :: "'cred world \<Rightarrow> string \<Rightarrow> string option \<Rightarrow> error option \<times> call list" where
  "probe w secret bucket =
     (case JSON_parse w secret of
        Inl e \<Rightarrow> (Some e, [])
      | Inr credentials \<Rightarrow>
          (case Storage w credentials of
             Some e \<Rightarrow> (Some e, [NewStorage])
           | None \<Rightarrow>
               (let options = \<lparr>autoPaginate = None, prefix = None, matchGlob = None,
                      delimiter = None, includeTrailingDelimiter = None,
                      maxResults = Some 1\<rparr>
                in case getFiles w credentials bucket options of
                     Inl e \<Rightarrow> (Some e, [NewStorage, GetFiles bucket options])
                   | Inr _ \<Rightarrow> (None, [NewStorage, GetFiles bucket options]))))"

text \<open>
  \<open>prepare\<close> first moves, removes or keeps the secret, writing into the objects of the
  caller, then validates. The objects it returns are the ones it was given.
\<close>

definition prepare ::
  "'cred world \<Rightarrow> 'cap prepareContext \<Rightarrow> ('cap prepareContext, 'cap prepareContext) run" where
  "prepare w ctx =
     (let serviceAccount' = serviceAccount (catalogConfig ctx);
          ctx' =
            (if truthy serviceAccount' \<and> serviceAccount' \<noteq> Some sentinel then
               ctx\<lparr>secrets := (secrets ctx)(''serviceAccount'' := serviceAccount'),
                   catalogConfig := (catalogConfig ctx)\<lparr>serviceAccount := Some sentinel\<rparr>\<rparr>
             else if truthy (secrets ctx ''serviceAccount'') \<and> serviceAccount' = Some [] then
               ctx\<lparr>secrets := (secrets ctx)(''serviceAccount'' := None)\<rparr>
             else ctx)
      in if truthy (secrets ctx' ''serviceAccount'') \<and> truthy (bucketName (catalogConfig ctx'))
         then
           (case secrets ctx' ''serviceAccount'' of
              None \<Rightarrow> \<lparr>promise = Rejected MissingConfiguration, after = ctx', calls = []\<rparr>
            | Some secret \<Rightarrow>
                (case probe w secret (bucketName (catalogConfig ctx')) of
                   (Some e, cs) \<Rightarrow>
                     \<lparr>promise = Rejected InvalidCredentials, after = ctx',
                      calls = cs @ [ConsoleError ''Error accessing Google Cloud Storage'']\<rparr>
                 | (None, cs) \<Rightarrow> \<lparr>promise = Resolved ctx', after = ctx', calls = cs\<rparr>))
         else \<lparr>promise = Rejected MissingConfiguration, after = ctx', calls = []\<rparr>)"

subsection \<open>Strings and paths\<close>

text \<open>
  The methods of JavaScript strings and arrays the plugin uses. An index is an \<open>int\<close>,
  since \<open>lastIndexOf\<close> answers \<open>-1\<close> for a character that does not occur, and
  \<open>substring\<close> takes a negative index for \<open>0\<close>.
\<close>

definition lastIndexOf :: "string \<Rightarrow> char \<Rightarrow> int" where
  "lastIndexOf s c =
     (if c \<in> set s then int (length s) - 1 - int (length (takeWhile (\<lambda>x. x \<noteq> c) (rev s)))
      else - 1)"

definition substring :: "string \<Rightarrow> int \<Rightarrow> string" where
  "substring s start = drop (nat start) s"

definition substring2 :: "string \<Rightarrow> int \<Rightarrow> int \<Rightarrow> string" where
  "substring2 s start stop =
     (let n = int (length s);
          a = max 0 (min start n);
          b = max 0 (min stop n)
      in take (nat (max a b - min a b)) (drop (nat (min a b)) s))"

text \<open>\<open>s.split(c)\<close>: the pieces of \<open>s\<close> between the occurrences of \<open>c\<close>, never
  an empty array.\<close>

fun split :: "char \<Rightarrow> string \<Rightarrow> string list" where
  "split c [] = [[]]"
| "split c (x # xs) =
     (if x = c then [] # split c xs
      else (case split c xs of [] \<Rightarrow> [[x]] | piece # pieces \<Rightarrow> (x # piece) # pieces))"

text \<open>\<open>pieces.join(sep)\<close>.\<close>

fun join :: "string \<Rightarrow> string list \<Rightarrow> string" where
  "join sep [] = []"
| "join sep [piece] = piece"
| "join sep (piece # pieces) = piece @ sep @ join sep pieces"

text \<open>
  \<open>path.basename(p)\<close> and \<open>path.extname(p)\<close> of Node.js, for POSIX paths. The last
  portion of a path is what stands between its last \<open>/\<close> and its end, trailing
  \<open>/\<close> left aside. The extension starts at the last dot of the last portion; there is
  none when the portion has no dot, when its only dot is its first character, or when
  the portion is \<open>..\<close>.
\<close>

definition basename :: "string \<Rightarrow> string" where
  "basename p =
     rev (takeWhile (\<lambda>c. c \<noteq> CHR ''/'') (dropWhile (\<lambda>c. c = CHR ''/'') (rev p)))"

definition extname :: "string \<Rightarrow> string" where
  "extname p =
     (let portion = basename p;
          tail = rev (takeWhile (\<lambda>c. c \<noteq> CHR ''.'') (rev portion))
      in if CHR ''.'' \<notin> set portion then []
         else if length portion = length tail + 1 \<or> portion = ''..'' then []
         else CHR ''.'' # tail)"

text \<open>\<open>path.basename(p, suffix)\<close>: the last portion without the suffix it ends with.\<close>

definition basename2 :: "string \<Rightarrow> string \<Rightarrow> string" where
  "basename2 p suffix =
     (let portion = basename p
      in if suffix = [] \<or> length p < length suffix then portion
         else if suffix = p then []
         else if portion \<noteq> suffix
                 \<and> drop (length portion - length suffix) portion = suffix
         then take (length portion - length suffix) portion
         else portion)"

subsection \<open>listResources\<close>

record listParams =
  currentFolderId :: "string option"
  q :: "string option"

record listResourcesContext = "context" +
  params :: listParams

text \<open>
  An entry of a listing is an object with a \<open>type\<close> field, \<open>'resource'\<close> (id, title,
  size, format, mimeType) or \<open>'folder'\<close> (id, title).
\<close>

datatype entry =
    ResourceEntry string string "size_value option" string "string option"
  | FolderEntry string string

fun type' :: "entry \<Rightarrow> string" where
  "type' (ResourceEntry i t s f m) = ''resource''"
| "type' (FolderEntry i t) = ''folder''"

fun id' :: "entry \<Rightarrow> string" where
  "id' (ResourceEntry i t s f m) = i"
| "id' (FolderEntry i t) = i"

fun title :: "entry \<Rightarrow> string" where
  "title (ResourceEntry i t s f m) = t"
| "title (FolderEntry i t) = t"

record listing =
  count :: nat
  results :: "entry list"
  path :: "entry list"

definition ListingFailed :: error where
  "ListingFailed =
     Error ''Erreur dans le listage des fichiers / Authentification GCS possiblement incorrecte''"

text \<open>The files of the response, but the one named as the current folder.\<close>

definition resFiles :: "string \<Rightarrow> storage_file list \<Rightarrow> entry list" where
  "resFiles folderId files =
     map (\<lambda>file. ResourceEntry (name file) (basename (name file)) (size' (metadata file))
                   (substring (extname (name file)) 1) (contentType (metadata file)))
       (filter (\<lambda>file. name file \<noteq> folderId) files)"

text \<open>The prefixes of the response, but \<open>/\<close>.\<close>

definition foldersFromPrefixes :: "string list \<Rightarrow> entry list" where
  "foldersFromPrefixes prefixes' =
     map (\<lambda>prefix'.
            let dosName = substring2 prefix' 0 (int (length prefix') - 1)
            in FolderEntry prefix' (substring dosName (lastIndexOf dosName CHR ''/'' + 1)))
       (filter (\<lambda>prefix'. prefix' \<noteq> ''/'') prefixes')"

definition foldersPath :: "string \<Rightarrow> string list" where
  "foldersPath folderId = filter (\<lambda>fold. fold \<noteq> []) (split CHR ''/'' folderId)"

definition foldPath :: "string \<Rightarrow> entry list" where
  "foldPath folderId =
     map (\<lambda>(idx, fold). FolderEntry (join ''/'' (take (idx + 1) (foldersPath folderId)) @ ''/'') fold)
       (enumerate 0 (foldersPath folderId))"

text \<open>The options of the listing request, from the parameters once normalised.\<close>

definition listOptions :: "listParams \<Rightarrow> GetFilesOptions" where
  "listOptions ps =
     \<lparr>autoPaginate = Some True,
      prefix = currentFolderId ps,
      matchGlob =
        (if truthy (q ps)
         then Some (case_option [] (\<lambda>s. s) (currentFolderId ps) @ ''*''
                    @ case_option [] (\<lambda>s. s) (q ps) @ ''**'')
         else None),
      delimiter = Some ''/'',
      includeTrailingDelimiter = Some False,
      maxResults = None\<rparr>"

text \<open>The \<open>catch\<close> block of \<open>listResources\<close>.\<close>

definition listingFailed ::
  "listResourcesContext \<Rightarrow> call list \<Rightarrow> (listing, listResourcesContext) run" where
  "listingFailed ctx cs =
     \<lparr>promise = Rejected ListingFailed, after = ctx,
      calls = cs @ [ConsoleError ''Error listing resources:'']\<rparr>"

definition listResources ::
  "'cred world \<Rightarrow> listResourcesContext \<Rightarrow> (listing, listResourcesContext) run" where
  "listResources w ctx =
     (case secrets ctx ''serviceAccount'' of
        None \<Rightarrow> \<lparr>promise = Rejected Unauthenticated, after = ctx, calls = []\<rparr>
      | Some secret \<Rightarrow>
          if secret = [] then \<lparr>promise = Rejected Unauthenticated, after = ctx, calls = []\<rparr>
          else
            (case JSON_parse w secret of
               Inl e \<Rightarrow> listingFailed ctx []
             | Inr credentials \<Rightarrow>
                 (case Storage w credentials of
                    Some e \<Rightarrow> listingFailed ctx [NewStorage]
                  | None \<Rightarrow>
                      (let ctx' =
                             (if \<not> truthy (currentFolderId (params ctx))
                              then ctx\<lparr>params := (params ctx)\<lparr>currentFolderId := Some []\<rparr>\<rparr>
                              else ctx);
                           folderId = case_option [] (\<lambda>s. s) (currentFolderId (params ctx'));
                           options = listOptions (params ctx');
                           bucket = bucketName (catalogConfig ctx')
                       in case getFiles w credentials bucket options of
                            Inl e \<Rightarrow> listingFailed ctx' [NewStorage, GetFiles bucket options]
                          | Inr (files, None) \<Rightarrow>
                              listingFailed ctx' [NewStorage, GetFiles bucket options]
                          | Inr (files, Some response) \<Rightarrow>
                              (let prefixes' = case_option [] (\<lambda>ps. ps) (prefixes response);
                                   files' = resFiles folderId files;
                                   folders = foldersFromPrefixes prefixes'
                               in \<lparr>promise = Resolved
                                     \<lparr>count = length files' + length folders,
                                      results = files' @ folders,
                                      path = foldPath folderId\<rparr>,
                                   after = ctx',
                                   calls = [NewStorage, GetFiles bucket options]\<rparr>)))))"

subsection \<open>getResource\<close>

record getResourceContext = "context" +
  resourceId :: string
  tmpDir :: string

record Resource =
  resource_id :: string
  resource_title :: string
  filePath :: string
  resource_format :: string

text \<open>The letter e with an acute accent, one character of a JavaScript string.\<close>

definition e_acute :: char where
  "e_acute = CHR 0xE9"

definition DownloadFailed :: error where
  "DownloadFailed =
     Error (''Erreur dans le t'' @ [e_acute] @ ''l'' @ [e_acute]
            @ ''chargement du fichier / Authentification GCS possiblement incorrecte'')"

text \<open>The \<open>data\<close> handler, chunk after chunk: the running count of bytes is logged.\<close>

fun progress_calls :: "string \<Rightarrow> nat \<Rightarrow> nat list \<Rightarrow> call list" where
  "progress_calls task progress [] = []"
| "progress_calls task progress (chunk # chunks) =
     LogProgress task (progress + chunk) # progress_calls task (progress + chunk) chunks"

text \<open>
  The promise built at the end of the \<open>try\<close> block. An error thrown while the stream
  is set up rejects it; so does an error of the stream, once the \<open>error\<close> handler has
  logged it, and if that log fails the promise is never settled. Whether the progress
  logs of the \<open>data\<close> handler succeed does not matter to the promise. The local
  write is taken to finish when the stream ends.
\<close>

definition download ::
  "'cred world \<Rightarrow> 'cred \<Rightarrow> getResourceContext \<Rightarrow> string \<Rightarrow> string \<Rightarrow> Resource promise \<times> call list"
  where
  "download w credentials ctx fileName filePath' =
     (let bucket = bucketName (catalogConfig ctx);
          task = ''download '' @ resourceId ctx
      in case createReadStream w credentials bucket (resourceId ctx) of
           Inl e \<Rightarrow> (Rejected e, [CreateReadStream bucket (resourceId ctx)])
         | Inr (chunks, ending) \<Rightarrow>
             (let cs = [CreateReadStream bucket (resourceId ctx), CreateWriteStream filePath']
                       @ progress_calls task 0 chunks
              in case ending of
                   StreamError e \<Rightarrow>
                     (let line = ''Error during download: '' @ message e
                      in (case log_error w line of
                            Some e' \<Rightarrow> (Pending, cs @ [LogError line])
                          | None \<Rightarrow> (Rejected e, cs @ [LogError line])))
                 | StreamEnd \<Rightarrow>
                     (Resolved
                        \<lparr>resource_id = resourceId ctx,
                         resource_title = basename2 fileName (extname fileName),
                         filePath = filePath',
                         resource_format = substring (extname fileName) 1\<rparr>, cs)))"

text \<open>The \<open>catch\<close> block of \<open>getResource\<close>, for the error \<open>e\<close> thrown in the \<open>try\<close> block.\<close>

definition downloadFailed ::
  "getResourceContext \<Rightarrow> call list \<Rightarrow> error \<Rightarrow> (Resource, getResourceContext) run" where
  "downloadFailed ctx cs e =
     \<lparr>promise = Rejected DownloadFailed, after = ctx,
      calls = cs @ [ConsoleError ''Error getting resource:'',
                    LogError (''Error during file download: '' @ message e)]\<rparr>"

text \<open>
  \<open>getResource\<close> returns the promise of the download without awaiting it: what that
  promise does is what the caller sees, and the \<open>catch\<close> block is only for what is
  thrown before.
\<close>

definition getResource ::
  "'cred world \<Rightarrow> getResourceContext \<Rightarrow> (Resource, getResourceContext) run" where
  "getResource w ctx =
     (case secrets ctx ''serviceAccount'' of
        None \<Rightarrow> \<lparr>promise = Rejected Unauthenticated, after = ctx, calls = []\<rparr>
      | Some secret \<Rightarrow>
          if secret = [] then \<lparr>promise = Rejected Unauthenticated, after = ctx, calls = []\<rparr>
          else
            (case JSON_parse w secret of
               Inl e \<Rightarrow> downloadFailed ctx [] e
             | Inr credentials \<Rightarrow>
                 (case Storage w credentials of
                    Some e \<Rightarrow> downloadFailed ctx [NewStorage] e
                  | None \<Rightarrow>
                      (let fileName =
                             substring (resourceId ctx) (lastIndexOf (resourceId ctx) CHR ''/'' + 1);
                           step = ''T'' @ [e_acute] @ ''l'' @ [e_acute]
                                  @ ''chargement du fichier : '' @ fileName;
                           cs1 = [NewStorage, LogStep step]
                       in case log_step w step of
                            Some e \<Rightarrow> downloadFailed ctx cs1 e
                          | None \<Rightarrow>
                              (let filePath' = path_join w (tmpDir ctx) fileName;
                                   bucket = bucketName (catalogConfig ctx);
                                   cs2 = cs1 @ [GetMetadata bucket (resourceId ctx)]
                               in case getMetadata w credentials bucket (resourceId ctx) of
                                    Inl e \<Rightarrow> downloadFailed ctx cs2 e
                                  | Inr metadata' \<Rightarrow>
                                      (let sizeNum =
                                             (case size' metadata' of
                                                Some (SizeString text) \<Rightarrow> Number w text
                                              | Some (SizeNumber n) \<Rightarrow> Some n
                                              | None \<Rightarrow> None);
                                           task = ''download '' @ resourceId ctx;
                                           cs3 = cs2 @ [LogTask task ''Progression'' sizeNum]
                                       in case log_task w task ''Progression'' sizeNum of
                                            Some e \<Rightarrow> downloadFailed ctx cs3 e
                                          | None \<Rightarrow>
                                              (case download w credentials ctx fileName filePath' of
                                                 (settled, cs4) \<Rightarrow>
                                                   \<lparr>promise = settled, after = ctx,
                                                    calls = cs3 @ cs4\<rparr>)))))))"

subsection \<open>Worlds of the test suite\<close>

text \<open>
  The storage mocks of the tests: a backend that answers every listing with a fixed
  response and every download with a fixed stream, and a logger that never fails.
\<close>

definition mock_world ::
  "storage_file list \<times> apiResponse option \<Rightarrow> error + file_metadata \<Rightarrow> nat list \<times> stream_end
   \<Rightarrow> unit world" where
  "mock_world response metadata_answer stream =
     \<lparr>JSON_parse = (\<lambda>text. Inr ()),
      Storage = (\<lambda>credentials. None),
      getFiles = (\<lambda>credentials bucket options. Inr response),
      getMetadata = (\<lambda>credentials bucket resource. metadata_answer),
      createReadStream = (\<lambda>credentials bucket resource. Inr stream),
      log_step = (\<lambda>line. None),
      log_task = (\<lambda>task label total. None),
      log_progress = (\<lambda>task progress. None),
      log_error = (\<lambda>line. None),
      path_join = (\<lambda>dir file. dir @ ''/'' @ file),
      Number = (\<lambda>text. None)\<rparr>"

text \<open>The mock whose \<open>Storage\<close> constructor throws.\<close>

definition failing_world :: "error \<Rightarrow> unit world" where
  "failing_world e = (mock_world ([], None) (Inl e) ([], StreamEnd))\<lparr>Storage := (\<lambda>credentials. Some e)\<rparr>"

subsection \<open>Contexts of the test suite\<close>

definition prepare_context :: "string option \<Rightarrow> secret_store \<Rightarrow> unit prepareContext" where
  "prepare_context account store =
     \<lparr>catalogConfig = \<lparr>bucketName = Some ''test-bucket'', serviceAccount = account\<rparr>,
      secrets = store, capabilities = ()\<rparr>"

definition list_context :: "secret_store \<Rightarrow> string option \<Rightarrow> string option \<Rightarrow> listResourcesContext"
  where
  "list_context store folderId query =
     \<lparr>catalogConfig = \<lparr>bucketName = Some ''test-bucket'', serviceAccount = None\<rparr>,
      secrets = store, params = \<lparr>currentFolderId = folderId, q = query\<rparr>\<rparr>"

definition download_context :: "secret_store \<Rightarrow> getResourceContext" where
  "download_context store =
     \<lparr>catalogConfig = \<lparr>bucketName = Some ''test-bucket'', serviceAccount = Some []\<rparr>,
      secrets = store, resourceId = ''folder1/file1.csv'', tmpDir = ''/tmp''\<rparr>"

definition file1 :: storage_file where
  "file1 = \<lparr>name = ''file1.csv'',
            metadata = \<lparr>size' = Some (SizeNumber 1000), contentType = Some ''text/csv''\<rparr>\<rparr>"

definition file2 :: storage_file where
  "file2 = \<lparr>name = ''file2.txt'',
            metadata = \<lparr>size' = Some (SizeNumber 2000), contentType = Some ''plain/text''\<rparr>\<rparr>"

subsection \<open>The words of the specification\<close>

text \<open>
  The last non-empty path segment of a prefix, as the specification names the title of
  a folder: the last of the pieces between \<open>/\<close> that is not empty (and the empty
  string when there is none).
\<close>

definition last_nonempty_segment :: "string \<Rightarrow> string" where
  "last_nonempty_segment p =
     (case rev (filter (\<lambda>s. s \<noteq> []) (split CHR ''/'' p)) of [] \<Rightarrow> [] | s # _ \<Rightarrow> s)"

section \<open>Properties of prepare\<close>

text \<open>
  C2. When \<open>secrets.serviceAccount\<close> is set (present and not empty, the test the code
  makes) and \<open>config.serviceAccount\<close> is the empty string, \<open>prepare\<close> deletes the secret
  and fails with the error "Service account and bucketName is required for Google
  Cloud Storage": after the failed call the secret is absent from the store, nothing
  else has changed, and no call was made to the backend.
\<close>

theorem prepare_explicit_removal:
  assumes "truthy (secrets ctx ''serviceAccount'')"
    and "serviceAccount (catalogConfig ctx) = Some []"
  shows "promise (prepare w ctx) =
           Rejected (Error ''Service account and bucketName is required for Google Cloud Storage'')
         \<and> secrets (after (prepare w ctx)) ''serviceAccount'' = None
         \<and> after (prepare w ctx) = ctx\<lparr>secrets := (secrets ctx)(''serviceAccount'' := None)\<rparr>
         \<and> calls (prepare w ctx) = []"
  using assms by (simp add: prepare_def Let_def truthy_def MissingConfiguration_def)

theorem prepare_explicit_removal_witness:
  "truthy (secrets (prepare_context (Some []) [''serviceAccount'' \<mapsto> ''{}'']) ''serviceAccount'')
   \<and> serviceAccount (catalogConfig (prepare_context (Some []) [''serviceAccount'' \<mapsto> ''{}''])) = Some []
   \<and> promise (prepare (mock_world ([], None) (Inl (Error [])) ([], StreamEnd))
        (prepare_context (Some []) [''serviceAccount'' \<mapsto> ''{}''])) =
       Rejected (Error ''Service account and bucketName is required for Google Cloud Storage'')
   \<and> secrets (after (prepare (mock_world ([], None) (Inl (Error [])) ([], StreamEnd))
        (prepare_context (Some []) [''serviceAccount'' \<mapsto> ''{}'']))) ''serviceAccount'' = None"
  using prepare_explicit_removal
    [of "prepare_context (Some []) [''serviceAccount'' \<mapsto> ''{}'']"
        "mock_world ([], None) (Inl (Error [])) ([], StreamEnd)"]
  by (simp add: prepare_context_def truthy_def)

text \<open>
  C9. \<open>prepare\<close> is not atomic on failure. When \<open>config.serviceAccount\<close> is a
  non-empty value \<open>V\<close> other than the sentinel and \<open>config.bucketName\<close> is empty (or
  absent), \<open>prepare\<close> fails with the error "Service account and bucketName is required
  for Google Cloud Storage", and yet the rotation has been applied to the objects of
  the caller: \<open>secrets.serviceAccount\<close> is \<open>V\<close> and \<open>config.serviceAccount\<close> is the
  sentinel after the failed call.
\<close>

theorem prepare_not_atomic:
  assumes "serviceAccount (catalogConfig ctx) = Some V" and "V \<noteq> []" and "V \<noteq> sentinel"
    and "\<not> truthy (bucketName (catalogConfig ctx))"
  shows "promise (prepare w ctx) =
           Rejected (Error ''Service account and bucketName is required for Google Cloud Storage'')
         \<and> secrets (after (prepare w ctx)) ''serviceAccount'' = Some V
         \<and> serviceAccount (catalogConfig (after (prepare w ctx))) = Some sentinel"
  using assms by (simp add: prepare_def Let_def truthy_def MissingConfiguration_def)

theorem prepare_not_atomic_witness:
  "''{}'' \<noteq> sentinel
   \<and> \<not> truthy (bucketName \<lparr>bucketName = Some [], serviceAccount = Some ''{}''\<rparr>)
   \<and> promise (prepare (mock_world ([], None) (Inl (Error [])) ([], StreamEnd))
        \<lparr>catalogConfig = \<lparr>bucketName = Some [], serviceAccount = Some ''{}''\<rparr>,
         secrets = Map.empty, capabilities = ()\<rparr>) =
       Rejected (Error ''Service account and bucketName is required for Google Cloud Storage'')
   \<and> secrets (after (prepare (mock_world ([], None) (Inl (Error [])) ([], StreamEnd))
        \<lparr>catalogConfig = \<lparr>bucketName = Some [], serviceAccount = Some ''{}''\<rparr>,
         secrets = Map.empty, capabilities = ()\<rparr>)) ''serviceAccount'' = Some ''{}''
   \<and> serviceAccount (catalogConfig (after (prepare (mock_world ([], None) (Inl (Error [])) ([], StreamEnd))
        \<lparr>catalogConfig = \<lparr>bucketName = Some [], serviceAccount = Some ''{}''\<rparr>,
         secrets = Map.empty, capabilities = ()\<rparr>))) = Some sentinel"
  using prepare_not_atomic
    [of "\<lparr>catalogConfig = \<lparr>bucketName = Some [], serviceAccount = Some ''{}''\<rparr>,
         secrets = Map.empty, capabilities = ()\<rparr>" "''{}''"
        "mock_world ([], None) (Inl (Error [])) ([], StreamEnd)"]
  by (simp add: truthy_def sentinel_def)

text \<open>
  C7. When \<open>config.serviceAccount\<close> is already the sentinel, \<open>secrets.serviceAccount\<close>
  is set and the validation probe runs (the bucket name is not empty) and succeeds,
  \<open>prepare\<close> changes nothing: it returns the configuration and the secrets it was
  given, and a second call on what it returned gives the same result.
\<close>

theorem prepare_masked_noop:
  assumes "serviceAccount (catalogConfig ctx) = Some sentinel"
    and "secrets ctx ''serviceAccount'' = Some secret" and "secret \<noteq> []"
    and "truthy (bucketName (catalogConfig ctx))"
    and "fst (probe w secret (bucketName (catalogConfig ctx))) = None"
  shows "promise (prepare w ctx) = Resolved ctx \<and> after (prepare w ctx) = ctx
         \<and> prepare w (after (prepare w ctx)) = prepare w ctx"
proof -
  have "sentinel \<noteq> []" by (simp add: sentinel_def)
  with assms have "promise (prepare w ctx) = Resolved ctx \<and> after (prepare w ctx) = ctx"
    by (auto simp add: prepare_def Let_def truthy_def split: prod.splits option.splits)
  then show ?thesis by simp
qed

theorem prepare_masked_noop_witness:
  "truthy (bucketName (catalogConfig (prepare_context (Some sentinel) [''serviceAccount'' \<mapsto> ''{}''])))
   \<and> fst (probe (mock_world ([], None) (Inl (Error [])) ([], StreamEnd)) ''{}'' (Some ''test-bucket'')) = None
   \<and> promise (prepare (mock_world ([], None) (Inl (Error [])) ([], StreamEnd))
        (prepare_context (Some sentinel) [''serviceAccount'' \<mapsto> ''{}''])) =
       Resolved (prepare_context (Some sentinel) [''serviceAccount'' \<mapsto> ''{}''])
   \<and> after (prepare (mock_world ([], None) (Inl (Error [])) ([], StreamEnd))
        (prepare_context (Some sentinel) [''serviceAccount'' \<mapsto> ''{}''])) =
       prepare_context (Some sentinel) [''serviceAccount'' \<mapsto> ''{}'']"
  using prepare_masked_noop
    [of "prepare_context (Some sentinel) [''serviceAccount'' \<mapsto> ''{}'']" "''{}''"
        "mock_world ([], None) (Inl (Error [])) ([], StreamEnd)"]
  by (simp add: prepare_context_def truthy_def probe_def mock_world_def)

text \<open>
  C3. When \<open>config.serviceAccount\<close> is a non-empty value \<open>V\<close> other than the sentinel
  and the validation probe runs (the bucket name is not empty) and succeeds, \<open>prepare\<close>
  returns with \<open>config.serviceAccount\<close> equal to the sentinel and
  \<open>secrets.serviceAccount\<close> equal to \<open>V\<close>. And whenever \<open>prepare\<close> returns,
  \<open>config.serviceAccount\<close> is the sentinel or absent.
\<close>

theorem prepare_rotation:
  "(serviceAccount (catalogConfig ctx) = Some V \<and> V \<noteq> [] \<and> V \<noteq> sentinel
      \<and> truthy (bucketName (catalogConfig ctx))
      \<and> fst (probe w V (bucketName (catalogConfig ctx))) = None
    \<longrightarrow> promise (prepare w ctx) =
          Resolved (ctx\<lparr>secrets := (secrets ctx)(''serviceAccount'' \<mapsto> V),
                       catalogConfig := (catalogConfig ctx)\<lparr>serviceAccount := Some sentinel\<rparr>\<rparr>)
        \<and> after (prepare w ctx) =
          ctx\<lparr>secrets := (secrets ctx)(''serviceAccount'' \<mapsto> V),
              catalogConfig := (catalogConfig ctx)\<lparr>serviceAccount := Some sentinel\<rparr>\<rparr>)
   \<and> (\<forall>ctx'. promise (prepare w ctx) = Resolved ctx' \<longrightarrow>
         serviceAccount (catalogConfig ctx') = Some sentinel
         \<or> serviceAccount (catalogConfig ctx') = None)"
proof (rule conjI)
  show "serviceAccount (catalogConfig ctx) = Some V \<and> V \<noteq> [] \<and> V \<noteq> sentinel
      \<and> truthy (bucketName (catalogConfig ctx))
      \<and> fst (probe w V (bucketName (catalogConfig ctx))) = None
    \<longrightarrow> promise (prepare w ctx) =
          Resolved (ctx\<lparr>secrets := (secrets ctx)(''serviceAccount'' \<mapsto> V),
                       catalogConfig := (catalogConfig ctx)\<lparr>serviceAccount := Some sentinel\<rparr>\<rparr>)
        \<and> after (prepare w ctx) =
          ctx\<lparr>secrets := (secrets ctx)(''serviceAccount'' \<mapsto> V),
              catalogConfig := (catalogConfig ctx)\<lparr>serviceAccount := Some sentinel\<rparr>\<rparr>"
    by (auto simp add: prepare_def Let_def truthy_def split: prod.splits option.splits)
next
  show "\<forall>ctx'. promise (prepare w ctx) = Resolved ctx' \<longrightarrow>
         serviceAccount (catalogConfig ctx') = Some sentinel
         \<or> serviceAccount (catalogConfig ctx') = None"
    by (auto simp add: prepare_def Let_def truthy_def split: prod.splits option.splits if_splits)
qed

theorem prepare_rotation_witness:
  "''{}'' \<noteq> sentinel
   \<and> truthy (bucketName (catalogConfig (prepare_context (Some ''{}'') Map.empty)))
   \<and> fst (probe (mock_world ([], None) (Inl (Error [])) ([], StreamEnd)) ''{}'' (Some ''test-bucket'')) = None
   \<and> promise (prepare (mock_world ([], None) (Inl (Error [])) ([], StreamEnd))
        (prepare_context (Some ''{}'') Map.empty)) =
       Resolved (prepare_context (Some sentinel) [''serviceAccount'' \<mapsto> ''{}''])
   \<and> serviceAccount (catalogConfig (prepare_context (Some sentinel) [''serviceAccount'' \<mapsto> ''{}'']))
       = Some sentinel"
  using prepare_rotation
    [of "prepare_context (Some ''{}'') Map.empty" "''{}''"
        "mock_world ([], None) (Inl (Error [])) ([], StreamEnd)"]
  by (simp add: prepare_context_def truthy_def probe_def mock_world_def sentinel_def)

section \<open>Lemmas about strings and paths\<close>

lemma length_takeWhile_less: "x \<in> set xs \<Longrightarrow> \<not> P x \<Longrightarrow> length (takeWhile P xs) < length xs"
  by (induction xs) auto

lemma substring_after_last:
  "substring s (lastIndexOf s c + 1) = rev (takeWhile (\<lambda>x. x \<noteq> c) (rev s))"
proof (cases "c \<in> set s")
  case True
  let ?k = "length (takeWhile (\<lambda>x. x \<noteq> c) (rev s))"
  have "?k < length (rev s)"
    using True length_takeWhile_less [of c "rev s" "\<lambda>x. x \<noteq> c"] by simp
  then have k: "?k < length s" by simp
  have "rev (takeWhile (\<lambda>x. x \<noteq> c) (rev s)) = rev (take ?k (rev s))"
    by (metis takeWhile_eq_take)
  also have "\<dots> = drop (length s - ?k) s"
    by (simp add: rev_take)
  finally have "rev (takeWhile (\<lambda>x. x \<noteq> c) (rev s)) = drop (length s - ?k) s" .
  moreover have "nat (lastIndexOf s c + 1) = length s - ?k"
    using True k by (simp add: lastIndexOf_def)
  ultimately show ?thesis by (simp add: substring_def)
next
  case False
  then have tw: "takeWhile (\<lambda>x. x \<noteq> c) (rev s) = rev s"
    by auto
  show ?thesis unfolding tw using False by (simp add: substring_def lastIndexOf_def)
qed

lemma substring2_butlast: "substring2 s 0 (int (length s) - 1) = butlast s"
  by (cases "s = []") (auto simp add: substring2_def Let_def butlast_conv_take max_def min_def nat_minus_as_int)

text \<open>\<open>split\<close> cuts at every separator and nowhere else, and \<open>join\<close> undoes it.\<close>

lemma split_not_Nil: "split c s \<noteq> []"
  by (induction s) (auto split: list.splits)

lemma split_append_sep: "split c (xs @ c # ys) = split c xs @ split c ys"
  by (induction xs) (auto split: list.splits simp: split_not_Nil)

lemma split_no_sep: "c \<notin> set s \<Longrightarrow> split c s = [s]"
  by (induction s) auto

lemma split_pieces: "piece \<in> set (split c s) \<Longrightarrow> c \<notin> set piece"
  by (induction s arbitrary: piece) (auto split: if_splits list.splits)

lemma join_split: "join [c] (split c s) = s"
proof (induction s)
  case Nil show ?case by simp
next
  case (Cons x s)
  obtain piece pieces where sp: "split c s = piece # pieces"
    using split_not_Nil [of c s] by (cases "split c s") auto
  show ?case using Cons sp by (cases pieces) auto
qed

lemma format_exact:
  assumes "basename key = stem @ ''.'' @ tail" and "stem \<noteq> []" and "CHR ''.'' \<notin> set tail"
  shows "substring (extname key) 1 = tail"
proof -
  let ?P = "\<lambda>c. c \<noteq> CHR ''.''"
  have "rev (basename key) = rev tail @ CHR ''.'' # rev stem"
    using assms by simp
  then have "takeWhile ?P (rev (basename key)) = takeWhile ?P (rev tail @ CHR ''.'' # rev stem)"
    by simp
  also have "\<dots> = takeWhile ?P (rev tail)" by (simp add: takeWhile_tail)
  also have "\<dots> = rev tail" using assms by auto
  finally have tw: "rev (takeWhile ?P (rev (basename key))) = tail" by simp
  have dot: "CHR ''.'' \<in> set (basename key)" using assms by simp
  have len: "length (basename key) \<noteq> length tail + 1" using assms by simp
  show ?thesis
  proof (cases "basename key = ''..''")
    case True
    with assms have "tail = []"
      by (cases tail rule: rev_cases) (auto simp add: append_eq_Cons_conv Cons_eq_append_conv)
    with True show ?thesis by (simp add: extname_def Let_def substring_def)
  next
    case False
    with tw dot len show ?thesis by (simp add: extname_def Let_def substring_def)
  qed
qed

lemma format_empty:
  assumes "CHR ''.'' \<notin> set (basename key) \<or> (\<exists>tail. basename key = ''.'' @ tail \<and> CHR ''.'' \<notin> set tail)"
  shows "substring (extname key) 1 = []"
proof -
  have "extname key = []"
  proof (cases "CHR ''.'' \<notin> set (basename key)")
    case True then show ?thesis by (simp add: extname_def Let_def)
  next
    case False
    with assms obtain tail where b: "basename key = CHR ''.'' # tail" and t: "CHR ''.'' \<notin> set tail"
      by auto
    have "takeWhile (\<lambda>c. c \<noteq> CHR ''.'') (rev tail @ [CHR ''.'']) = rev tail"
      using t by (auto simp add: takeWhile_tail)
    then show ?thesis using b by (simp add: extname_def Let_def)
  qed
  then show ?thesis by (simp add: substring_def)
qed

lemma folder_title:
  assumes "CHR ''/'' \<notin> set seg" and "base = [] \<or> last base = CHR ''/''"
  shows "rev (takeWhile (\<lambda>x. x \<noteq> CHR ''/'') (rev (butlast (base @ seg @ ''/'')))) = seg"
proof -
  have "butlast (base @ seg @ ''/'') = base @ seg" by (simp add: butlast_append)
  moreover have "takeWhile (\<lambda>x. x \<noteq> CHR ''/'') (rev seg @ rev base) = rev seg"
  proof (cases "base = []")
    case True with assms show ?thesis by auto
  next
    case False
    with assms obtain front where front: "base = front @ [CHR ''/'']"
      by (metis append_butlast_last_id)
    have "takeWhile (\<lambda>x. x \<noteq> CHR ''/'') (rev seg @ rev (front @ [CHR ''/'']))
               = takeWhile (\<lambda>x. x \<noteq> CHR ''/'') (rev seg)"
      by (simp add: takeWhile_tail)
    also have "\<dots> = rev seg" using assms by auto
    finally show ?thesis unfolding front .
  qed
  ultimately show ?thesis by simp
qed

lemma last_nonempty_segment_folder:
  assumes "CHR ''/'' \<notin> set seg" and "seg \<noteq> []" and "base = [] \<or> last base = CHR ''/''"
  shows "last_nonempty_segment (base @ seg @ ''/'') = seg"
proof (cases "base = []")
  case True
  have "split CHR ''/'' (seg @ CHR ''/'' # []) = [seg, []]"
    using assms by (simp add: split_append_sep split_no_sep)
  with True assms show ?thesis by (simp add: last_nonempty_segment_def)
next
  case False
  with assms obtain front where front: "base = front @ [CHR ''/'']"
    by (metis append_butlast_last_id)
  have "split CHR ''/'' (front @ CHR ''/'' # (seg @ CHR ''/'' # [])) = split CHR ''/'' front @ [seg, []]"
    using assms by (simp add: split_append_sep split_no_sep)
  with front assms show ?thesis by (simp add: last_nonempty_segment_def)
qed

section \<open>Properties of listResources\<close>

lemma normalised_context:
  "(if \<not> truthy (currentFolderId (params ctx))
    then ctx\<lparr>params := (params ctx)\<lparr>currentFolderId := Some []\<rparr>\<rparr> else ctx)
   = ctx\<lparr>params := (params ctx)
       \<lparr>currentFolderId := Some (case_option [] (\<lambda>s. s) (currentFolderId (params ctx)))\<rparr>\<rparr>"
  by (cases "currentFolderId (params ctx)") (auto simp add: truthy_def)

lemma listResources_reached:
  assumes "secrets ctx ''serviceAccount'' = Some secret" and "secret \<noteq> []"
    and "JSON_parse w secret = Inr credentials" and "Storage w credentials = None"
  shows "listResources w ctx =
     (let ctx' = ctx\<lparr>params := (params ctx)\<lparr>currentFolderId :=
                   Some (case_option [] (\<lambda>s. s) (currentFolderId (params ctx)))\<rparr>\<rparr>;
          folderId = case_option [] (\<lambda>s. s) (currentFolderId (params ctx));
          options = listOptions (params ctx');
          bucket = bucketName (catalogConfig ctx)
      in case getFiles w credentials bucket options of
           Inl e \<Rightarrow> listingFailed ctx' [NewStorage, GetFiles bucket options]
         | Inr (files, None) \<Rightarrow> listingFailed ctx' [NewStorage, GetFiles bucket options]
         | Inr (files, Some response) \<Rightarrow>
             \<lparr>promise = Resolved
                \<lparr>count = length (resFiles folderId files)
                         + length (foldersFromPrefixes (case_option [] (\<lambda>ps. ps) (prefixes response))),
                 results = resFiles folderId files
                         @ foldersFromPrefixes (case_option [] (\<lambda>ps. ps) (prefixes response)),
                 path = foldPath folderId\<rparr>,
              after = ctx',
              calls = [NewStorage, GetFiles bucket options]\<rparr>)"
  using assms unfolding listResources_def normalised_context
  by (simp add: Let_def split: sum.splits prod.splits option.splits)

lemma listResources_Resolved:
  assumes "promise (listResources w ctx) = Resolved r"
  shows "\<exists>secret credentials files response.
      secrets ctx ''serviceAccount'' = Some secret \<and> secret \<noteq> []
    \<and> JSON_parse w secret = Inr credentials \<and> Storage w credentials = None
    \<and> getFiles w credentials (bucketName (catalogConfig ctx))
         (listOptions ((params ctx)\<lparr>currentFolderId :=
            Some (case_option [] (\<lambda>s. s) (currentFolderId (params ctx)))\<rparr>))
       = Inr (files, Some response)
    \<and> calls (listResources w ctx) =
        [NewStorage, GetFiles (bucketName (catalogConfig ctx))
           (listOptions ((params ctx)\<lparr>currentFolderId :=
              Some (case_option [] (\<lambda>s. s) (currentFolderId (params ctx)))\<rparr>))]
    \<and> r = \<lparr>count = length (resFiles (case_option [] (\<lambda>s. s) (currentFolderId (params ctx))) files)
                 + length (foldersFromPrefixes (case_option [] (\<lambda>ps. ps) (prefixes response))),
            results = resFiles (case_option [] (\<lambda>s. s) (currentFolderId (params ctx))) files
                 @ foldersFromPrefixes (case_option [] (\<lambda>ps. ps) (prefixes response)),
            path = foldPath (case_option [] (\<lambda>s. s) (currentFolderId (params ctx)))\<rparr>"
proof -
  from assms obtain secret where s: "secrets ctx ''serviceAccount'' = Some secret" "secret \<noteq> []"
    by (auto simp add: listResources_def split: option.splits if_splits)
  from assms s obtain credentials where c: "JSON_parse w secret = Inr credentials"
    by (cases "JSON_parse w secret") (auto simp add: listResources_def listingFailed_def)
  from assms s c have st: "Storage w credentials = None"
    by (cases "Storage w credentials") (auto simp add: listResources_def listingFailed_def)
  let ?options = "listOptions ((params ctx)\<lparr>currentFolderId :=
            Some (case_option [] (\<lambda>s. s) (currentFolderId (params ctx)))\<rparr>)"
  note reached = listResources_reached [OF s c st]
  from assms obtain files response where
    g: "getFiles w credentials (bucketName (catalogConfig ctx)) ?options = Inr (files, Some response)"
    unfolding reached
    by (cases "getFiles w credentials (bucketName (catalogConfig ctx)) ?options")
      (auto simp add: Let_def listingFailed_def split: option.splits)
  from assms g have "r = \<lparr>count = length (resFiles (case_option [] (\<lambda>s. s) (currentFolderId (params ctx))) files)
                 + length (foldersFromPrefixes (case_option [] (\<lambda>ps. ps) (prefixes response))),
            results = resFiles (case_option [] (\<lambda>s. s) (currentFolderId (params ctx))) files
                 @ foldersFromPrefixes (case_option [] (\<lambda>ps. ps) (prefixes response)),
            path = foldPath (case_option [] (\<lambda>s. s) (currentFolderId (params ctx)))\<rparr>"
    unfolding reached by (simp add: Let_def)
  moreover from g have "calls (listResources w ctx) =
        [NewStorage, GetFiles (bucketName (catalogConfig ctx)) ?options]"
    unfolding reached by (simp add: Let_def)
  ultimately show ?thesis using s c st g by blast
qed

lemma listResources_calls:
  assumes "GetFiles bucket options \<in> set (calls (listResources w ctx))"
  shows "options = listOptions ((params ctx)\<lparr>currentFolderId :=
            Some (case_option [] (\<lambda>s. s) (currentFolderId (params ctx)))\<rparr>)"
  using assms unfolding listResources_def normalised_context
  by (auto simp add: Let_def listingFailed_def split: option.splits sum.splits if_splits prod.splits)

text \<open>
  C6. Every glob filter \<open>listResources\<close> passes to the backend is, when a query \<open>q\<close> is
  supplied (present and not empty), the current folder id (empty when absent), then one
  asterisk, then \<open>q\<close>, then two asterisks; and no glob filter is passed when \<open>q\<close> is
  absent.
\<close>

theorem listResources_glob:
  assumes "GetFiles bucket options \<in> set (calls (listResources w ctx))"
  shows "(\<forall>query. q (params ctx) = Some query \<and> query \<noteq> [] \<longrightarrow>
            matchGlob options =
              Some ((case currentFolderId (params ctx) of None \<Rightarrow> [] | Some folderId \<Rightarrow> folderId)
                    @ ''*'' @ query @ ''**''))
         \<and> (q (params ctx) = None \<longrightarrow> matchGlob options = None)"
  using listResources_calls [OF assms] by (auto simp add: listOptions_def truthy_def)

theorem listResources_glob_witness:
  "GetFiles (Some ''test-bucket'')
     \<lparr>autoPaginate = Some True, prefix = Some ''folder1/'', matchGlob = Some ''folder1/*abc**'',
      delimiter = Some ''/'', includeTrailingDelimiter = Some False, maxResults = None\<rparr>
     \<in> set (calls (listResources (mock_world ([], Some \<lparr>prefixes = None\<rparr>) (Inl (Error [])) ([], StreamEnd))
          (list_context [''serviceAccount'' \<mapsto> ''{}''] (Some ''folder1/'') (Some ''abc''))))
   \<and> q (params (list_context [''serviceAccount'' \<mapsto> ''{}''] (Some ''folder1/'') (Some ''abc''))) = Some ''abc''
   \<and> matchGlob \<lparr>autoPaginate = Some True, prefix = Some ''folder1/'', matchGlob = Some ''folder1/*abc**'',
      delimiter = Some ''/'', includeTrailingDelimiter = Some False, maxResults = None\<rparr>
      = Some (''folder1/'' @ ''*'' @ ''abc'' @ ''**'')
   \<and> GetFiles (Some ''test-bucket'')
     \<lparr>autoPaginate = Some True, prefix = Some [], matchGlob = None,
      delimiter = Some ''/'', includeTrailingDelimiter = Some False, maxResults = None\<rparr>
     \<in> set (calls (listResources (mock_world ([], Some \<lparr>prefixes = None\<rparr>) (Inl (Error [])) ([], StreamEnd))
          (list_context [''serviceAccount'' \<mapsto> ''{}''] None None)))
   \<and> q (params (list_context [''serviceAccount'' \<mapsto> ''{}''] None None)) = None
   \<and> matchGlob \<lparr>autoPaginate = Some True, prefix = Some [], matchGlob = None,
      delimiter = Some ''/'', includeTrailingDelimiter = Some False, maxResults = None\<rparr> = None"
  using listResources_glob
    [of "Some ''test-bucket''"
        "\<lparr>autoPaginate = Some True, prefix = Some ''folder1/'', matchGlob = Some ''folder1/*abc**'',
      delimiter = Some ''/'', includeTrailingDelimiter = Some False, maxResults = None\<rparr>"
        "mock_world ([], Some \<lparr>prefixes = None\<rparr>) (Inl (Error [])) ([], StreamEnd)"
        "list_context [''serviceAccount'' \<mapsto> ''{}''] (Some ''folder1/'') (Some ''abc'')"]
    listResources_glob
    [of "Some ''test-bucket''"
        "\<lparr>autoPaginate = Some True, prefix = Some [], matchGlob = None,
      delimiter = Some ''/'', includeTrailingDelimiter = Some False, maxResults = None\<rparr>"
        "mock_world ([], Some \<lparr>prefixes = None\<rparr>) (Inl (Error [])) ([], StreamEnd)"
        "list_context [''serviceAccount'' \<mapsto> ''{}''] None None"]
  by (simp add: list_context_def listResources_def mock_world_def listOptions_def truthy_def
      Let_def)

lemma listResources_not_reached:
  assumes "\<not> truthy (secrets ctx ''serviceAccount'')
     \<or> (\<exists>secret e. secrets ctx ''serviceAccount'' = Some secret \<and> JSON_parse w secret = Inl e)
     \<or> (\<exists>secret credentials e. secrets ctx ''serviceAccount'' = Some secret
           \<and> JSON_parse w secret = Inr credentials \<and> Storage w credentials = Some e)"
  shows "after (listResources w ctx) = ctx"
  using assms
  by (auto simp add: listResources_def truthy_def listingFailed_def split: option.splits)

lemma listResources_after:
  assumes "secrets ctx ''serviceAccount'' = Some secret" and "secret \<noteq> []"
    and "JSON_parse w secret = Inr credentials" and "Storage w credentials = None"
  shows "after (listResources w ctx) =
     ctx\<lparr>params := (params ctx)\<lparr>currentFolderId :=
           Some (case_option [] (\<lambda>s. s) (currentFolderId (params ctx)))\<rparr>\<rparr>"
  unfolding listResources_reached [OF assms]
  by (simp add: Let_def listingFailed_def split: sum.splits prod.splits option.splits)

text \<open>
  The call of the test "throws an error when authentication fails", and a call without
  a secret: \<open>params.currentFolderId\<close> is absent before the call and still absent after
  it, since \<open>listResources\<close> has thrown before it came to write the field.
\<close>

theorem listResources_mutates_params_counterexample:
  "currentFolderId (params (list_context Map.empty None None)) = None
   \<and> after (listResources (mock_world ([file1, file2], Some \<lparr>prefixes = Some [''folder1/'']\<rparr>) (Inl (Error [])) ([], StreamEnd))
        (list_context Map.empty None None)) = list_context Map.empty None None
   \<and> currentFolderId (params (list_context [''serviceAccount'' \<mapsto> ''{}''] None None)) = None
   \<and> after (listResources (failing_world (Error ''Invalid credentials''))
        (list_context [''serviceAccount'' \<mapsto> ''{}''] None None))
       = list_context [''serviceAccount'' \<mapsto> ''{}''] None None
   \<and> currentFolderId (params (list_context [''serviceAccount'' \<mapsto> ''{}''] None None)) \<noteq> Some []"
  by (simp add: listResources_def list_context_def failing_world_def mock_world_def
      listingFailed_def)

text \<open>
  C10, as amended. When the secret is present and not empty, the credentials parse and
  the storage client is constructed, a call of \<open>listResources\<close> with an absent
  \<open>params.currentFolderId\<close> leaves the \<open>params\<close> object of the caller with that field
  set to the empty string. A call that fails before (no secret, credentials that do
  not parse, a constructor that throws) leaves the caller's objects as they were. In
  every call the configuration, the secrets and \<open>params.q\<close> are left unchanged.
\<close>

theorem listResources_frame:
  "(secrets ctx ''serviceAccount'' = Some secret \<and> secret \<noteq> []
      \<and> JSON_parse w secret = Inr credentials \<and> Storage w credentials = None
      \<and> currentFolderId (params ctx) = None
    \<longrightarrow> after (listResources w ctx) = ctx\<lparr>params := (params ctx)\<lparr>currentFolderId := Some []\<rparr>\<rparr>)
   \<and> (\<not> truthy (secrets ctx ''serviceAccount'') \<longrightarrow> after (listResources w ctx) = ctx)
   \<and> (secrets ctx ''serviceAccount'' = Some secret \<and> JSON_parse w secret = Inl e
        \<longrightarrow> after (listResources w ctx) = ctx)
   \<and> (secrets ctx ''serviceAccount'' = Some secret \<and> JSON_parse w secret = Inr credentials
        \<and> Storage w credentials = Some e \<longrightarrow> after (listResources w ctx) = ctx)
   \<and> catalogConfig (after (listResources w ctx)) = catalogConfig ctx
   \<and> secrets (after (listResources w ctx)) = secrets ctx
   \<and> q (params (after (listResources w ctx))) = q (params ctx)"
proof -
  have frame: "catalogConfig (after (listResources w ctx)) = catalogConfig ctx
     \<and> secrets (after (listResources w ctx)) = secrets ctx
     \<and> q (params (after (listResources w ctx))) = q (params ctx)"
    unfolding listResources_def normalised_context
    by (simp add: Let_def listingFailed_def split: option.splits sum.splits prod.splits)
  show ?thesis
    using frame listResources_after [of ctx secret w credentials]
      listResources_not_reached [of ctx w]
    by auto
qed

theorem listResources_frame_witness:
  "secrets (list_context [''serviceAccount'' \<mapsto> ''{}''] None (Some ''abc'')) ''serviceAccount'' = Some ''{}''
   \<and> JSON_parse (mock_world ([file1], Some \<lparr>prefixes = None\<rparr>) (Inl (Error [])) ([], StreamEnd)) ''{}'' = Inr ()
   \<and> Storage (mock_world ([file1], Some \<lparr>prefixes = None\<rparr>) (Inl (Error [])) ([], StreamEnd)) () = None
   \<and> currentFolderId (params (list_context [''serviceAccount'' \<mapsto> ''{}''] None (Some ''abc''))) = None
   \<and> after (listResources (mock_world ([file1], Some \<lparr>prefixes = None\<rparr>) (Inl (Error [])) ([], StreamEnd))
        (list_context [''serviceAccount'' \<mapsto> ''{}''] None (Some ''abc'')))
       = list_context [''serviceAccount'' \<mapsto> ''{}''] (Some []) (Some ''abc'')
   \<and> \<not> truthy (secrets (list_context Map.empty None None) ''serviceAccount'')
   \<and> after (listResources (mock_world ([file1], Some \<lparr>prefixes = None\<rparr>) (Inl (Error [])) ([], StreamEnd))
        (list_context Map.empty None None)) = list_context Map.empty None None
   \<and> JSON_parse ((mock_world ([file1], Some \<lparr>prefixes = None\<rparr>) (Inl (Error [])) ([], StreamEnd))
        \<lparr>JSON_parse := \<lambda>text. Inl (Error ''SyntaxError'')\<rparr>) ''{'' = Inl (Error ''SyntaxError'')
   \<and> after (listResources ((mock_world ([file1], Some \<lparr>prefixes = None\<rparr>) (Inl (Error [])) ([], StreamEnd))
        \<lparr>JSON_parse := \<lambda>text. Inl (Error ''SyntaxError'')\<rparr>)
        (list_context [''serviceAccount'' \<mapsto> ''{''] None None))
       = list_context [''serviceAccount'' \<mapsto> ''{''] None None
   \<and> Storage (failing_world (Error ''Invalid credentials'')) () = Some (Error ''Invalid credentials'')
   \<and> after (listResources (failing_world (Error ''Invalid credentials''))
        (list_context [''serviceAccount'' \<mapsto> ''{}''] None None))
       = list_context [''serviceAccount'' \<mapsto> ''{}''] None None"
  using listResources_frame
    [of "list_context [''serviceAccount'' \<mapsto> ''{}''] None (Some ''abc'')" "''{}''"
        "mock_world ([file1], Some \<lparr>prefixes = None\<rparr>) (Inl (Error [])) ([], StreamEnd)" "()" "Error []"]
    listResources_frame
    [of "list_context Map.empty None None" "''{}''"
        "mock_world ([file1], Some \<lparr>prefixes = None\<rparr>) (Inl (Error [])) ([], StreamEnd)" "()" "Error []"]
    listResources_frame
    [of "list_context [''serviceAccount'' \<mapsto> ''{''] None None" "''{''"
        "(mock_world ([file1], Some \<lparr>prefixes = None\<rparr>) (Inl (Error [])) ([], StreamEnd))
           \<lparr>JSON_parse := \<lambda>text. Inl (Error ''SyntaxError'')\<rparr>" "()" "Error ''SyntaxError''"]
    listResources_frame
    [of "list_context [''serviceAccount'' \<mapsto> ''{}''] None None" "''{}''"
        "failing_world (Error ''Invalid credentials'')" "()" "Error ''Invalid credentials''"]
  by (simp add: list_context_def mock_world_def failing_world_def truthy_def)

lemma length_foldPath: "length (foldPath folderId) = length (foldersPath folderId)"
  by (simp add: foldPath_def)

lemma foldPath_nth:
  assumes "i < length (foldersPath folderId)"
  shows "foldPath folderId ! i =
     FolderEntry (join ''/'' (take (Suc i) (foldersPath folderId)) @ ''/'') (foldersPath folderId ! i)"
  using assms by (simp add: foldPath_def nth_enumerate_eq)

text \<open>
  C8. When \<open>listResources\<close> returns, its \<open>path\<close> is the breadcrumb of
  \<open>currentFolderId\<close> (the empty string when absent): split on \<open>/\<close>, empty segments
  dropped, one folder entry for each segment left, whose id is the segments up to it
  joined with \<open>/\<close> and followed by \<open>/\<close>, and whose title is the segment. For
  \<open>folder1/\<close> the path is the one folder \<open>folder1/\<close> with title \<open>folder1\<close>; for an
  absent \<open>currentFolderId\<close> the path is empty.
\<close>

theorem listResources_breadcrumb:
  assumes "promise (listResources w ctx) = Resolved r"
  shows "(let segments = filter (\<lambda>segment. segment \<noteq> [])
              (split CHR ''/'' (case currentFolderId (params ctx) of None \<Rightarrow> [] | Some folderId \<Rightarrow> folderId))
          in length (path r) = length segments
             \<and> (\<forall>i < length segments.
                   path r ! i = FolderEntry (join ''/'' (take (Suc i) segments) @ ''/'') (segments ! i)
                   \<and> type' (path r ! i) = ''folder''))
         \<and> (currentFolderId (params ctx) = Some ''folder1/'' \<longrightarrow>
              path r = [FolderEntry ''folder1/'' ''folder1''])
         \<and> (currentFolderId (params ctx) = None \<longrightarrow> path r = [])"
proof -
  from listResources_Resolved [OF assms]
  have p: "path r = foldPath (case_option [] (\<lambda>s. s) (currentFolderId (params ctx)))"
    by auto
  have "foldPath ''folder1/'' = [FolderEntry ''folder1/'' ''folder1'']"
    by (simp add: foldPath_def foldersPath_def enumerate_eq_zip upt_rec)
  moreover have "foldPath [] = []"
    by (simp add: foldPath_def foldersPath_def)
  ultimately show ?thesis
    unfolding p Let_def
    by (auto simp add: length_foldPath foldPath_nth foldersPath_def [symmetric])
qed

theorem listResources_breadcrumb_witness:
  "promise (listResources (mock_world ([], Some \<lparr>prefixes = Some [''a/b/c/'']\<rparr>) (Inl (Error [])) ([], StreamEnd))
        (list_context [''serviceAccount'' \<mapsto> ''{}''] (Some ''a//b/'') None))
     = Resolved \<lparr>count = 1, results = [FolderEntry ''a/b/c/'' ''c''],
                 path = [FolderEntry ''a/'' ''a'', FolderEntry ''a/b/'' ''b'']\<rparr>
   \<and> filter (\<lambda>segment. segment \<noteq> []) (split CHR ''/'' ''a//b/'') = [''a'', ''b'']
   \<and> (1::nat) < length [''a'', ''b'']
   \<and> [FolderEntry ''a/'' ''a'', FolderEntry ''a/b/'' ''b''] ! 1
        = FolderEntry (join ''/'' (take (Suc 1) [''a'', ''b'']) @ ''/'') ([''a'', ''b''] ! 1)
   \<and> promise (listResources (mock_world ([], Some \<lparr>prefixes = None\<rparr>) (Inl (Error [])) ([], StreamEnd))
        (list_context [''serviceAccount'' \<mapsto> ''{}''] (Some ''folder1/'') None))
     = Resolved \<lparr>count = 0, results = [], path = [FolderEntry ''folder1/'' ''folder1'']\<rparr>
   \<and> promise (listResources (mock_world ([], Some \<lparr>prefixes = None\<rparr>) (Inl (Error [])) ([], StreamEnd))
        (list_context [''serviceAccount'' \<mapsto> ''{}''] None None))
     = Resolved \<lparr>count = 0, results = [], path = []\<rparr>"
proof -
  have run: "promise (listResources (mock_world ([], Some \<lparr>prefixes = Some [''a/b/c/'']\<rparr>) (Inl (Error [])) ([], StreamEnd))
        (list_context [''serviceAccount'' \<mapsto> ''{}''] (Some ''a//b/'') None))
     = Resolved \<lparr>count = 1, results = [FolderEntry ''a/b/c/'' ''c''],
                 path = [FolderEntry ''a/'' ''a'', FolderEntry ''a/b/'' ''b'']\<rparr>"
    by (simp add: listResources_def list_context_def mock_world_def Let_def truthy_def
        listOptions_def resFiles_def foldersFromPrefixes_def foldPath_def foldersPath_def
        substring_def substring2_def lastIndexOf_def enumerate_eq_zip upt_rec)
  have segs: "filter (\<lambda>segment. segment \<noteq> []) (split CHR ''/'' ''a//b/'') = [''a'', ''b'']"
    by simp
  have run1: "promise (listResources (mock_world ([], Some \<lparr>prefixes = None\<rparr>) (Inl (Error [])) ([], StreamEnd))
        (list_context [''serviceAccount'' \<mapsto> ''{}''] (Some ''folder1/'') None))
     = Resolved \<lparr>count = 0, results = [], path = foldPath ''folder1/''\<rparr>"
    by (simp add: listResources_def list_context_def mock_world_def Let_def truthy_def
        listOptions_def resFiles_def foldersFromPrefixes_def)
  have run2: "promise (listResources (mock_world ([], Some \<lparr>prefixes = None\<rparr>) (Inl (Error [])) ([], StreamEnd))
        (list_context [''serviceAccount'' \<mapsto> ''{}''] None None))
     = Resolved \<lparr>count = 0, results = [], path = foldPath []\<rparr>"
    by (simp add: listResources_def list_context_def mock_world_def Let_def truthy_def
        listOptions_def resFiles_def foldersFromPrefixes_def)
  from listResources_breadcrumb [OF run] listResources_breadcrumb [OF run1]
    listResources_breadcrumb [OF run2] segs
  show ?thesis
    using run run1 run2 by (simp add: list_context_def Let_def)
qed

lemma foldersFromPrefixes_eq:
  "foldersFromPrefixes prefixes' =
     map (\<lambda>p. FolderEntry p (rev (takeWhile (\<lambda>x. x \<noteq> CHR ''/'') (rev (butlast p)))))
       (filter (\<lambda>p. p \<noteq> ''/'') prefixes')"
  by (simp add: foldersFromPrefixes_def Let_def substring2_butlast substring_after_last)

text \<open>
  The claim that the title of a folder is the last non-empty path segment of its prefix
  fails for a prefix that ends in two slashes: listing the folder \<open>a/\<close> of a bucket
  that holds the placeholder object \<open>a/\<close> and an object under \<open>a//\<close> gives one entry,
  the folder \<open>a//\<close> with the empty title, where the last non-empty segment is \<open>a\<close>;
  and the object named as the current folder has no entry.
\<close>

theorem listing_partition_counterexample:
  "promise (listResources
      (mock_world ([\<lparr>name = ''a/'', metadata = \<lparr>size' = Some (SizeNumber 0), contentType = None\<rparr>\<rparr>],
                   Some \<lparr>prefixes = Some [''a//'']\<rparr>) (Inl (Error [])) ([], StreamEnd))
      (list_context [''serviceAccount'' \<mapsto> ''{}''] (Some ''a/'') None))
     = Resolved \<lparr>count = 1, results = [FolderEntry ''a//'' []], path = [FolderEntry ''a/'' ''a'']\<rparr>
   \<and> last_nonempty_segment ''a//'' = ''a''
   \<and> title (FolderEntry ''a//'' []) \<noteq> last_nonempty_segment ''a//''"
  by (simp add: listResources_def list_context_def mock_world_def Let_def truthy_def
        listOptions_def resFiles_def foldersFromPrefixes_def foldPath_def foldersPath_def
        substring_def substring2_def lastIndexOf_def enumerate_eq_zip upt_rec
        last_nonempty_segment_def)

text \<open>
  C4, as amended. When \<open>listResources\<close> returns, its results are made from the response
  of the one listing call: first a resource entry for each object but the one named
  as the current folder (id the full key, title the basename, size and mimeType those
  of the metadata, format what follows the last dot of the basename, or empty when
  the basename has no dot or only a leading one), then a folder entry for each common
  prefix but \<open>/\<close> (id the prefix, title what follows the last \<open>/\<close> of the prefix
  without its final character). All resources precede all folders, and \<open>count\<close> is the
  number of resources plus the number of folders. For a prefix made of a base (empty
  or ending in \<open>/\<close>), a segment without \<open>/\<close> and a final \<open>/\<close>, the title is that
  segment: the last non-empty path segment when the segment is not empty, and the
  empty string otherwise.
\<close>

theorem listing_partition:
  assumes "promise (listResources w ctx) = Resolved r"
  shows "(\<exists>credentials options files response n.
            calls (listResources w ctx) = [NewStorage, GetFiles (bucketName (catalogConfig ctx)) options]
          \<and> getFiles w credentials (bucketName (catalogConfig ctx)) options
              = Inr (files, Some response)
          \<and> results r =
              map (\<lambda>file. ResourceEntry (name file) (basename (name file)) (size' (metadata file))
                             (substring (extname (name file)) 1) (contentType (metadata file)))
                (filter (\<lambda>file. name file \<noteq>
                     (case currentFolderId (params ctx) of None \<Rightarrow> [] | Some folderId \<Rightarrow> folderId))
                   files)
              @ map (\<lambda>p. FolderEntry p (rev (takeWhile (\<lambda>x. x \<noteq> CHR ''/'') (rev (butlast p)))))
                  (filter (\<lambda>p. p \<noteq> ''/'')
                     (case prefixes response of None \<Rightarrow> [] | Some prefixes' \<Rightarrow> prefixes'))
          \<and> (\<forall>e \<in> set (take n (results r)). type' e = ''resource'')
          \<and> (\<forall>e \<in> set (drop n (results r)). type' e = ''folder'' \<and> id' e \<noteq> ''/'')
          \<and> count r = n + length (drop n (results r)))
       \<and> count r = length (results r)
       \<and> (\<forall>key stem tail. basename key = stem @ ''.'' @ tail \<and> stem \<noteq> [] \<and> CHR ''.'' \<notin> set tail
             \<longrightarrow> substring (extname key) 1 = tail)
       \<and> (\<forall>key. CHR ''.'' \<notin> set (basename key) \<longrightarrow> substring (extname key) 1 = [])
       \<and> (\<forall>key tail. basename key = ''.'' @ tail \<and> CHR ''.'' \<notin> set tail
             \<longrightarrow> substring (extname key) 1 = [])
       \<and> (\<forall>base segment. CHR ''/'' \<notin> set segment \<and> (base = [] \<or> last base = CHR ''/'') \<longrightarrow>
             rev (takeWhile (\<lambda>x. x \<noteq> CHR ''/'') (rev (butlast (base @ segment @ ''/'')))) = segment
             \<and> (segment \<noteq> [] \<longrightarrow> last_nonempty_segment (base @ segment @ ''/'') = segment))"
proof -
  let ?folderId = "case currentFolderId (params ctx) of None \<Rightarrow> [] | Some folderId \<Rightarrow> folderId"
  from listResources_Resolved [OF assms] obtain credentials options files response where
    c: "calls (listResources w ctx) = [NewStorage, GetFiles (bucketName (catalogConfig ctx)) options]"
    and g: "getFiles w credentials (bucketName (catalogConfig ctx)) options = Inr (files, Some response)"
    and r: "r = \<lparr>count = length (resFiles ?folderId files)
                 + length (foldersFromPrefixes (case_option [] (\<lambda>ps. ps) (prefixes response))),
            results = resFiles ?folderId files
                 @ foldersFromPrefixes (case_option [] (\<lambda>ps. ps) (prefixes response)),
            path = foldPath ?folderId\<rparr>"
    by blast
  let ?n = "length (resFiles ?folderId files)"
  have res: "results r = resFiles ?folderId files
      @ foldersFromPrefixes (case_option [] (\<lambda>ps. ps) (prefixes response))"
    and cnt: "count r = ?n + length (foldersFromPrefixes (case_option [] (\<lambda>ps. ps) (prefixes response)))"
    by (simp_all add: r)
  have first: "\<forall>e \<in> set (take ?n (results r)). type' e = ''resource''"
    unfolding res by (auto simp add: resFiles_def)
  have second: "\<forall>e \<in> set (drop ?n (results r)). type' e = ''folder'' \<and> id' e \<noteq> ''/''"
    unfolding res by (auto simp add: foldersFromPrefixes_eq)
  have total: "count r = ?n + length (drop ?n (results r))"
    unfolding res cnt by simp
  have shape: "results r =
              map (\<lambda>file. ResourceEntry (name file) (basename (name file)) (size' (metadata file))
                             (substring (extname (name file)) 1) (contentType (metadata file)))
                (filter (\<lambda>file. name file \<noteq> ?folderId) files)
              @ map (\<lambda>p. FolderEntry p (rev (takeWhile (\<lambda>x. x \<noteq> CHR ''/'') (rev (butlast p)))))
                  (filter (\<lambda>p. p \<noteq> ''/'')
                     (case prefixes response of None \<Rightarrow> [] | Some prefixes' \<Rightarrow> prefixes'))"
    unfolding res by (simp add: resFiles_def foldersFromPrefixes_eq)
  have part1: "\<exists>credentials options files response n.
            calls (listResources w ctx) = [NewStorage, GetFiles (bucketName (catalogConfig ctx)) options]
          \<and> getFiles w credentials (bucketName (catalogConfig ctx)) options
              = Inr (files, Some response)
          \<and> results r =
              map (\<lambda>file. ResourceEntry (name file) (basename (name file)) (size' (metadata file))
                             (substring (extname (name file)) 1) (contentType (metadata file)))
                (filter (\<lambda>file. name file \<noteq> ?folderId) files)
              @ map (\<lambda>p. FolderEntry p (rev (takeWhile (\<lambda>x. x \<noteq> CHR ''/'') (rev (butlast p)))))
                  (filter (\<lambda>p. p \<noteq> ''/'')
                     (case prefixes response of None \<Rightarrow> [] | Some prefixes' \<Rightarrow> prefixes'))
          \<and> (\<forall>e \<in> set (take n (results r)). type' e = ''resource'')
          \<and> (\<forall>e \<in> set (drop n (results r)). type' e = ''folder'' \<and> id' e \<noteq> ''/'')
          \<and> count r = n + length (drop n (results r))"
    using c g shape first second total by blast
  have part2: "count r = length (results r)"
    by (simp add: r)
  have part3: "\<forall>key stem tail. basename key = stem @ ''.'' @ tail \<and> stem \<noteq> [] \<and> CHR ''.'' \<notin> set tail
             \<longrightarrow> substring (extname key) 1 = tail"
    using format_exact by blast
  have part4: "\<forall>key. CHR ''.'' \<notin> set (basename key) \<longrightarrow> substring (extname key) 1 = []"
    using format_empty by blast
  have part5: "\<forall>key tail. basename key = ''.'' @ tail \<and> CHR ''.'' \<notin> set tail
             \<longrightarrow> substring (extname key) 1 = []"
    using format_empty by blast
  have part6: "\<forall>base segment. CHR ''/'' \<notin> set segment \<and> (base = [] \<or> last base = CHR ''/'') \<longrightarrow>
             rev (takeWhile (\<lambda>x. x \<noteq> CHR ''/'') (rev (butlast (base @ segment @ ''/'')))) = segment
             \<and> (segment \<noteq> [] \<longrightarrow> last_nonempty_segment (base @ segment @ ''/'') = segment)"
    using folder_title last_nonempty_segment_folder by blast
  from part1 part2 part3 part4 part5 part6 show ?thesis by blast
qed

theorem listing_partition_witness:
  "promise (listResources
      (mock_world ([file1, file2], Some \<lparr>prefixes = Some [''/'', ''folder1/'', ''folder2/'']\<rparr>) (Inl (Error [])) ([], StreamEnd))
      (list_context [''serviceAccount'' \<mapsto> ''{}''] None None))
     = Resolved \<lparr>count = 4,
         results = [ResourceEntry ''file1.csv'' ''file1.csv'' (Some (SizeNumber 1000)) ''csv'' (Some ''text/csv''),
                    ResourceEntry ''file2.txt'' ''file2.txt'' (Some (SizeNumber 2000)) ''txt'' (Some ''plain/text''),
                    FolderEntry ''folder1/'' ''folder1'', FolderEntry ''folder2/'' ''folder2''],
         path = []\<rparr>
   \<and> (4::nat) = length
        [ResourceEntry ''file1.csv'' ''file1.csv'' (Some (SizeNumber 1000)) ''csv'' (Some ''text/csv''),
         ResourceEntry ''file2.txt'' ''file2.txt'' (Some (SizeNumber 2000)) ''txt'' (Some ''plain/text''),
         FolderEntry ''folder1/'' ''folder1'', FolderEntry ''folder2/'' ''folder2'']
   \<and> basename ''folder1/file1.csv'' = ''file1'' @ ''.'' @ ''csv''
   \<and> substring (extname ''folder1/file1.csv'') 1 = ''csv''
   \<and> CHR ''.'' \<notin> set (basename ''folder1/README'')
   \<and> substring (extname ''folder1/README'') 1 = []
   \<and> basename ''folder1/.gitignore'' = ''.'' @ ''gitignore''
   \<and> substring (extname ''folder1/.gitignore'') 1 = []
   \<and> CHR ''/'' \<notin> set ''folder2'' \<and> last ''folder1/'' = CHR ''/'' \<and> ''folder2'' \<noteq> []
   \<and> rev (takeWhile (\<lambda>x. x \<noteq> CHR ''/'') (rev (butlast (''folder1/'' @ ''folder2'' @ ''/'')))) = ''folder2''
   \<and> last_nonempty_segment (''folder1/'' @ ''folder2'' @ ''/'') = ''folder2''"
proof -
  have run: "promise (listResources
      (mock_world ([file1, file2], Some \<lparr>prefixes = Some [''/'', ''folder1/'', ''folder2/'']\<rparr>) (Inl (Error [])) ([], StreamEnd))
      (list_context [''serviceAccount'' \<mapsto> ''{}''] None None))
     = Resolved \<lparr>count = 4,
         results = [ResourceEntry ''file1.csv'' ''file1.csv'' (Some (SizeNumber 1000)) ''csv'' (Some ''text/csv''),
                    ResourceEntry ''file2.txt'' ''file2.txt'' (Some (SizeNumber 2000)) ''txt'' (Some ''plain/text''),
                    FolderEntry ''folder1/'' ''folder1'', FolderEntry ''folder2/'' ''folder2''],
         path = []\<rparr>"
    by (simp add: listResources_def list_context_def mock_world_def Let_def truthy_def
        listOptions_def resFiles_def foldersFromPrefixes_def foldPath_def foldersPath_def
        substring_def substring2_def lastIndexOf_def file1_def file2_def basename_def extname_def)
  note facts = listing_partition [OF run]
  note total = facts [THEN conjunct2, THEN conjunct1]
  note with_dot = facts [THEN conjunct2, THEN conjunct2, THEN conjunct1, rule_format]
  note no_dot = facts [THEN conjunct2, THEN conjunct2, THEN conjunct2, THEN conjunct1, rule_format]
  note leading_dot = facts [THEN conjunct2, THEN conjunct2, THEN conjunct2, THEN conjunct2,
      THEN conjunct1, rule_format]
  note segment = facts [THEN conjunct2, THEN conjunct2, THEN conjunct2, THEN conjunct2,
      THEN conjunct2, rule_format]
  from total have four: "(4::nat) = length
        [ResourceEntry ''file1.csv'' ''file1.csv'' (Some (SizeNumber 1000)) ''csv'' (Some ''text/csv''),
         ResourceEntry ''file2.txt'' ''file2.txt'' (Some (SizeNumber 2000)) ''txt'' (Some ''plain/text''),
         FolderEntry ''folder1/'' ''folder1'', FolderEntry ''folder2/'' ''folder2'']"
    by simp
  have b1: "basename ''folder1/file1.csv'' = ''file1'' @ ''.'' @ ''csv''"
    and b2: "CHR ''.'' \<notin> set (basename ''folder1/README'')"
    and b3: "basename ''folder1/.gitignore'' = ''.'' @ ''gitignore''"
    by (simp_all add: basename_def)
  have f1: "substring (extname ''folder1/file1.csv'') 1 = ''csv''"
    using with_dot [where key = "''folder1/file1.csv''" and stem = "''file1''" and tail = "''csv''"] b1 by simp
  have f2: "substring (extname ''folder1/README'') 1 = []"
    using no_dot [where key = "''folder1/README''"] b2 by simp
  have f3: "substring (extname ''folder1/.gitignore'') 1 = []"
    using leading_dot [where key = "''folder1/.gitignore''" and tail = "''gitignore''"] b3 by simp
  have s1: "rev (takeWhile (\<lambda>x. x \<noteq> CHR ''/'') (rev (butlast (''folder1/'' @ ''folder2'' @ ''/'')))) = ''folder2''"
    using segment [where base = "''folder1/''" and segment = "''folder2''", THEN conjunct1] by simp
  have s2: "last_nonempty_segment (''folder1/'' @ ''folder2'' @ ''/'') = ''folder2''"
    using segment [where base = "''folder1/''" and segment = "''folder2''", THEN conjunct2] by simp
  from run four b1 b2 b3 f1 f2 f3 s1 s2 show ?thesis by simp
qed

section \<open>The precondition of listResources and getResource\<close>

text \<open>
  C5. When \<open>secrets.serviceAccount\<close> is absent, \<open>listResources\<close> and \<open>getResource\<close>
  both fail with the error "Service Account is required to access Google Cloud
  Storage" at once: no storage client has been constructed, and no call at all has
  been made to the backend or to the logger.
\<close>

theorem unauthenticated_without_secret:
  "(secrets lctx ''serviceAccount'' = None \<longrightarrow>
      promise (listResources w lctx) =
        Rejected (Error ''Service Account is required to access Google Cloud Storage'')
      \<and> calls (listResources w lctx) = [] \<and> after (listResources w lctx) = lctx)
   \<and> (secrets gctx ''serviceAccount'' = None \<longrightarrow>
      promise (getResource w' gctx) =
        Rejected (Error ''Service Account is required to access Google Cloud Storage'')
      \<and> calls (getResource w' gctx) = [] \<and> after (getResource w' gctx) = gctx)"
  by (simp add: listResources_def getResource_def Unauthenticated_def)

theorem unauthenticated_without_secret_witness:
  "secrets (list_context Map.empty None None) ''serviceAccount'' = None
   \<and> promise (listResources (mock_world ([file1, file2], Some \<lparr>prefixes = Some [''folder1/'']\<rparr>) (Inl (Error [])) ([], StreamEnd))
        (list_context Map.empty None None)) =
        Rejected (Error ''Service Account is required to access Google Cloud Storage'')
   \<and> calls (listResources (mock_world ([file1, file2], Some \<lparr>prefixes = Some [''folder1/'']\<rparr>) (Inl (Error [])) ([], StreamEnd))
        (list_context Map.empty None None)) = []
   \<and> secrets (download_context Map.empty) ''serviceAccount'' = None
   \<and> promise (getResource (mock_world ([], Some \<lparr>prefixes = None\<rparr>) (Inl (Error [])) ([10], StreamEnd))
        (download_context Map.empty)) =
        Rejected (Error ''Service Account is required to access Google Cloud Storage'')
   \<and> calls (getResource (mock_world ([], Some \<lparr>prefixes = None\<rparr>) (Inl (Error [])) ([10], StreamEnd))
        (download_context Map.empty)) = []"
  using unauthenticated_without_secret
    [of "list_context Map.empty None None"
        "mock_world ([file1, file2], Some \<lparr>prefixes = Some [''folder1/'']\<rparr>) (Inl (Error [])) ([], StreamEnd)"
        "download_context Map.empty"
        "mock_world ([], Some \<lparr>prefixes = None\<rparr>) (Inl (Error [])) ([10], StreamEnd)"]
  by (simp add: list_context_def download_context_def)

section \<open>Properties of getResource\<close>

text \<open>
  Every rejection of \<open>getResource\<close> is the missing-secret error, the generic download
  error, or the error of the read stream itself (thrown when the stream is opened, or
  emitted by it).
\<close>

lemma getResource_Rejected:
  assumes "promise (getResource w ctx) = Rejected e"
  shows "e = Unauthenticated \<or> e = DownloadFailed
     \<or> (\<exists>credentials. createReadStream w credentials (bucketName (catalogConfig ctx)) (resourceId ctx)
           = Inl e)
     \<or> (\<exists>credentials chunks. createReadStream w credentials (bucketName (catalogConfig ctx))
           (resourceId ctx) = Inr (chunks, StreamError e))"
  using assms
  by (auto simp add: getResource_def downloadFailed_def download_def Let_def
      split: option.splits sum.splits if_splits prod.splits stream_end.splits)

text \<open>The test "should throw an error if the file does not exist": a failure of the
  metadata request is caught and replaced by the generic error.\<close>

lemma getResource_metadata_failure:
  "promise (getResource (mock_world ([], Some \<lparr>prefixes = None\<rparr>) (Inl (Error ''File not found'')) ([10, 20], StreamEnd))
      (download_context [''serviceAccount'' \<mapsto> ''{}''])) = Rejected DownloadFailed"
  by (simp add: getResource_def downloadFailed_def download_context_def mock_world_def Let_def)

text \<open>
  C1. The claim is that every failure of \<open>getResource\<close> reaches the caller as the
  generic download error. Here the metadata request succeeds and the read stream
  emits an error after two chunks: the promise \<open>getResource\<close> returned is rejected with
  the error of the stream, which is not the generic one.
\<close>

theorem getResource_stream_error:
  "promise (getResource
      (mock_world ([], Some \<lparr>prefixes = None\<rparr>) (Inr \<lparr>size' = Some (SizeNumber 1000), contentType = Some ''text/csv''\<rparr>)
         ([10, 20], StreamError (Error ''boom'')))
      (download_context [''serviceAccount'' \<mapsto> ''{}''])) = Rejected (Error ''boom'')
   \<and> Error ''boom'' \<noteq> DownloadFailed"
  by (simp add: getResource_def download_def download_context_def mock_world_def Let_def
      DownloadFailed_def)

end
